theory Spec2Isabelle
  imports Complex_Main "HOL-Library.Log_Nat"
begin

section \<open>Data model (types.ts)\<close>

text \<open>
  A JavaScript \<open>number\<close> that is read from JSON or written as a literal is finite and is
  modelled as a rational. Where the source does arithmetic whose result depends on IEEE-754
  (the score normalisation of \<open>submitApplication\<close>), the result is a \<open>double\<close>: the rounding
  to binary64, the infinities and NaN are written out (section "Binary64 arithmetic"). A
  computed number reaches a record as JSON keeps it: \<open>None\<close> stands for \<open>null\<close>, which
  \<open>JSON.stringify\<close> writes for an infinity or NaN. Lengths and counts are natural numbers.
  The sign of zero is not modelled.
  A JavaScript string is a \<open>string\<close>, one element per UTF-16 code unit.
  Record fields carry a prefix, since the source reuses field names (\<open>id\<close>, \<open>score\<close>,
  \<open>title\<close>) across its interfaces and Isabelle keeps one name space for fields and variables.
\<close>

type_synonym number = rat

datatype Track = ACADEMIC | TECHNICAL | BOTH

datatype ApplicationStatus =
  PROFILE_SUBMITTED | ASSESSMENT_PENDING | REVIEWING | ONBOARDED | REJECTED

datatype SampleType = UPLOADED_SAMPLE | ASSESSMENT_TASK

record WritingSample =
  ws_id :: string
  ws_title :: string
  ws_content :: string
  ws_type :: SampleType
  ws_dateSubmitted :: string

record StyleMetrics =
  vocabularyRichness :: number
  sentenceComplexity :: number
  passiveVoiceUsage :: number
  tone :: string
  detectedAiProbability :: number
  consistencyScore :: number
  keyTraits :: "string list"

record RubricCriterion =
  rc_id :: string
  rc_category :: string
  rc_description :: string
  rc_maxPoints :: number

record RubricScore =
  rs_criterionId :: string
  rs_score :: number
  rs_comments :: string

record Source =
  src_title :: string
  src_uri :: string

record PlagiarismResult =
  pl_score :: number
  pl_sources :: "Source list"
  pl_analysis :: string

record AssessmentResult =
  ar_overallScore :: "number option"
  ar_rubricScores :: "RubricScore list"
  ar_feedback :: string
  ar_authorshipMatchScore :: number
  ar_metrics :: StyleMetrics
  ar_plagiarism :: "PlagiarismResult option"
  ar_timeTakenSeconds :: "number option"
  ar_pasteCount :: "number option"

record AssessmentMeta =
  meta_startTime :: number
  meta_endTime :: number
  meta_pasteCount :: number

record Assessment =
  as_taskPrompt :: string
  as_submission :: string
  as_result :: "AssessmentResult option"
  as_meta :: AssessmentMeta

record WriterProfile =
  wp_id :: string
  wp_fullName :: string
  wp_email :: string
  wp_track :: "Track option"
  wp_experienceYears :: number
  wp_bio :: string
  wp_samples :: "WritingSample list"
  wp_assessment :: "Assessment option"
  wp_status :: ApplicationStatus
  wp_appliedDate :: string

record AiAnalysisResponse =
  an_metrics :: StyleMetrics
  an_rubricScores :: "RubricScore list"
  an_feedback :: string
  an_summary :: string

record AuthorshipResult =
  au_matchScore :: number
  au_reason :: string


section \<open>Profile store (storageService)\<close>

text \<open>
  \<open>localStorage\<close> holds two keys. Each key is absent (\<open>None\<close>) or holds the value that was
  last written: \<open>JSON.stringify\<close> followed by \<open>JSON.parse\<close> is taken to give the value back.
\<close>

record Storage =
  veriscript_applicants :: "WriterProfile list option"
  veriscript_rubric :: "RubricCriterion list option"

definition DEFAULT_RUBRIC :: "RubricCriterion list" where
  "DEFAULT_RUBRIC =
    [\<lparr>rc_id = ''1'', rc_category = ''Grammar & Mechanics'',
       rc_description = ''Accuracy of grammar, spelling, and punctuation.'', rc_maxPoints = 20\<rparr>,
     \<lparr>rc_id = ''2'', rc_category = ''Clarity & Flow'',
       rc_description = ''Logical progression of ideas and readability.'', rc_maxPoints = 20\<rparr>,
     \<lparr>rc_id = ''3'', rc_category = ''Technical Accuracy/Research'',
       rc_description = ''Correctness of facts or technical concepts.'', rc_maxPoints = 30\<rparr>,
     \<lparr>rc_id = ''4'', rc_category = ''Voice & Tone'',
       rc_description = ''Appropriateness of tone for the target audience.'', rc_maxPoints = 15\<rparr>,
     \<lparr>rc_id = ''5'', rc_category = ''Adherence to Prompt'',
       rc_description = ''How well the submission addresses the requirements.'',
       rc_maxPoints = 15\<rparr>]"

definition getApplicants :: "Storage \<Rightarrow> WriterProfile list" where
  "getApplicants st = (case veriscript_applicants st of Some data \<Rightarrow> data | None \<Rightarrow> [])"

text \<open>\<open>Array.prototype.findIndex\<close>: the first index whose element satisfies the predicate.\<close>

fun findIndex :: "('a \<Rightarrow> bool) \<Rightarrow> 'a list \<Rightarrow> nat option" where
  "findIndex P [] = None"
| "findIndex P (x # xs) =
     (if P x then Some 0 else (case findIndex P xs of None \<Rightarrow> None | Some i \<Rightarrow> Some (Suc i)))"

definition saveApplicant :: "WriterProfile \<Rightarrow> Storage \<Rightarrow> Storage" where
  "saveApplicant profile st =
     (let applicants = getApplicants st;
          applicants' = (case findIndex (\<lambda>p. wp_id p = wp_id profile) applicants of
                           Some existingIndex \<Rightarrow> applicants[existingIndex := profile]
                         | None \<Rightarrow> applicants @ [profile])
      in st\<lparr>veriscript_applicants := Some applicants'\<rparr>)"

definition getApplicantById :: "Storage \<Rightarrow> string \<Rightarrow> WriterProfile option" where
  "getApplicantById st i = find (\<lambda>p. wp_id p = i) (getApplicants st)"

definition clearAll :: "Storage \<Rightarrow> Storage" where
  "clearAll st = st\<lparr>veriscript_applicants := None, veriscript_rubric := None\<rparr>"

definition getRubric :: "Storage \<Rightarrow> RubricCriterion list" where
  "getRubric st = (case veriscript_rubric st of Some data \<Rightarrow> data | None \<Rightarrow> DEFAULT_RUBRIC)"

definition saveRubric :: "RubricCriterion list \<Rightarrow> Storage \<Rightarrow> Storage" where
  "saveRubric rubric st = st\<lparr>veriscript_rubric := Some rubric\<rparr>"



section \<open>External service (GoogleGenAI)\<close>

text \<open>
  \<open>ai.models.generateContent\<close> is the only external call. Its request is modelled
  by the parts of the prompt that depend on the input; the fixed prose of the prompt, the model
  name and the response schema are constants of the source. The call either throws or returns
  a response, of which the source reads \<open>text\<close> (possibly undefined or empty) and
  \<open>candidates?.[0]?.groundingMetadata?.groundingChunks\<close> (\<open>None\<close> when any link of the
  optional chain is missing). Every stage returns, next to its result, the list of requests
  it has issued.
\<close>

datatype Request =
  StyleRequest "RubricCriterion list" string
| PlagiarismRequest string
| AuthorshipRequest "(nat \<times> SampleType \<times> string) list" string

datatype JsError =
  ServiceError string
| NoResponse
| SyntaxError

record GroundingChunk =
  web :: "Source option"

record GenerateContentResponse =
  resp_text :: "string option"
  groundingChunks :: "GroundingChunk list option"

type_synonym Service = "Request \<Rightarrow> JsError + GenerateContentResponse"

text \<open>A service that answers every request with one response, and one that always throws.\<close>

definition replyWith :: "GenerateContentResponse \<Rightarrow> Service" where
  "replyWith r req = Inr r"

definition failWith :: "JsError \<Rightarrow> Service" where
  "failWith e req = Inl e"

text \<open>A \<open>JSON.parse\<close> that yields one value for every text, and one that always throws.\<close>

definition parseTo :: "'a \<Rightarrow> string \<Rightarrow> 'a option" where
  "parseTo v s = Some v"

definition parseFails :: "string \<Rightarrow> 'a option" where
  "parseFails s = None"

text \<open>
  \<open>if (response.text) return JSON.parse(response.text); throw new Error("No response from AI")\<close>:
  an undefined or empty text throws; \<open>JSON.parse\<close> (a parameter, \<open>None\<close> when it throws
  a SyntaxError) gives the value, which the source returns unchecked.
\<close>

definition parseResponseText :: "(string \<Rightarrow> 'a option) \<Rightarrow> GenerateContentResponse \<Rightarrow> JsError + 'a" where
  "parseResponseText parse response =
     (case resp_text response of
        None \<Rightarrow> Inl NoResponse
      | Some t \<Rightarrow> if t = [] then Inl NoResponse
                  else (case parse t of None \<Rightarrow> Inl SyntaxError | Some v \<Rightarrow> Inr v))"


section \<open>Style and rubric analysis (geminiService.analyzeWritingStyle)\<close>

definition insufficientText :: "RubricCriterion list \<Rightarrow> AiAnalysisResponse" where
  "insufficientText rubric =
     \<lparr>an_metrics = \<lparr>vocabularyRichness = 0, sentenceComplexity = 0, passiveVoiceUsage = 0,
                     tone = ''N/A'', detectedAiProbability = 0, consistencyScore = 0,
                     keyTraits = []\<rparr>,
      an_rubricScores =
        map (\<lambda>r. \<lparr>rs_criterionId = rc_id r, rs_score = 0, rs_comments = ''Insufficient text''\<rparr>)
            rubric,
      an_feedback = ''Text too short to analyze.'',
      an_summary = ''Insufficient data.''\<rparr>"

text \<open>The \<open>catch\<close> block logs and rethrows, so an error of the \<open>try\<close> body is the result.\<close>

definition analyzeWritingStyle ::
  "Service \<Rightarrow> (string \<Rightarrow> AiAnalysisResponse option) \<Rightarrow> string \<Rightarrow> RubricCriterion list
     \<Rightarrow> Request list \<times> (JsError + AiAnalysisResponse)" where
  "analyzeWritingStyle ai parse text rubric =
     (if text = [] \<or> length text < 50 then ([], Inr (insufficientText rubric))
      else
        let req = StyleRequest rubric (take 4000 text) in
        ([req],
         case ai req of
           Inl e \<Rightarrow> Inl e
         | Inr response \<Rightarrow> parseResponseText parse response))"


section \<open>Plagiarism analysis (geminiService.checkPlagiarism)\<close>

text \<open>\<open>chunks.forEach\<close>: a chunk with a \<open>web\<close> part contributes its title and uri.\<close>

fun extractSources :: "GroundingChunk list \<Rightarrow> Source list" where
  "extractSources [] = []"
| "extractSources (chunk # chunks) =
     (case web chunk of
        Some w \<Rightarrow> \<lparr>src_title = src_title w, src_uri = src_uri w\<rparr> # extractSources chunks
      | None \<Rightarrow> extractSources chunks)"

text \<open>
  The two assignments to \<open>calculatedScore\<close>, as a function of \<open>sources.length\<close>.
  An array length is below \<open>2^32\<close>, so the arithmetic is exact in binary64.
\<close>

definition calculatedScore :: "nat \<Rightarrow> number" where
  "calculatedScore n =
     (let calculatedScore = (if n > 0 then 50 + (of_nat n * 10) else 0)
      in min calculatedScore 100)"

definition plagiarismOf :: "GenerateContentResponse \<Rightarrow> PlagiarismResult" where
  "plagiarismOf response =
     (let sources = extractSources (case groundingChunks response of Some cs \<Rightarrow> cs | None \<Rightarrow> []);
          analysisText = (case resp_text response of
                            None \<Rightarrow> ''No analysis provided.''
                          | Some t \<Rightarrow> if t = [] then ''No analysis provided.'' else t)
      in \<lparr>pl_score = calculatedScore (length sources), pl_sources = sources,
          pl_analysis = analysisText\<rparr>)"

definition textTooShort :: PlagiarismResult where
  "textTooShort = \<lparr>pl_score = 0, pl_sources = [], pl_analysis = ''Text too short to check.''\<rparr>"

definition plagiarismError :: PlagiarismResult where
  "plagiarismError =
     \<lparr>pl_score = 0, pl_sources = [], pl_analysis = ''Error during plagiarism check.''\<rparr>"

text \<open>The body of the \<open>try\<close> block: the call, then the derivation of the result.\<close>

definition checkPlagiarism_try :: "Service \<Rightarrow> Request \<Rightarrow> JsError + PlagiarismResult" where
  "checkPlagiarism_try ai req =
     (case ai req of Inl e \<Rightarrow> Inl e | Inr response \<Rightarrow> Inr (plagiarismOf response))"

definition checkPlagiarism :: "Service \<Rightarrow> string \<Rightarrow> Request list \<times> (JsError + PlagiarismResult)" where
  "checkPlagiarism ai text =
     (if text = [] \<or> length text < 50 then ([], Inr textTooShort)
      else
        let req = PlagiarismRequest (take 1000 text) in
        ([req],
         case checkPlagiarism_try ai req of
           Inl e \<Rightarrow> Inr plagiarismError
         | Inr r \<Rightarrow> Inr r))"


section \<open>Authorship comparison (geminiService.compareAuthorship)\<close>

fun formatSamples :: "nat \<Rightarrow> WritingSample list \<Rightarrow> (nat \<times> SampleType \<times> string) list" where
  "formatSamples i [] = []"
| "formatSamples i (s # ss) = (i + 1, ws_type s, take 1500 (ws_content s)) # formatSamples (i + 1) ss"

definition noBaseline :: AuthorshipResult where
  "noBaseline = \<lparr>au_matchScore = 100, au_reason = ''No baseline to compare against.''\<rparr>"

definition analysisFailed :: AuthorshipResult where
  "analysisFailed = \<lparr>au_matchScore = 0, au_reason = ''Analysis failed''\<rparr>"

definition compareAuthorship_try ::
  "Service \<Rightarrow> (string \<Rightarrow> AuthorshipResult option) \<Rightarrow> Request \<Rightarrow> JsError + AuthorshipResult" where
  "compareAuthorship_try ai parse req =
     (case ai req of Inl e \<Rightarrow> Inl e | Inr response \<Rightarrow> parseResponseText parse response)"

definition compareAuthorship ::
  "Service \<Rightarrow> (string \<Rightarrow> AuthorshipResult option) \<Rightarrow> WritingSample list \<Rightarrow> string
     \<Rightarrow> Request list \<times> (JsError + AuthorshipResult)" where
  "compareAuthorship ai parse samples newText =
     (if samples = [] then ([], Inr noBaseline)
      else
        let req = AuthorshipRequest (formatSamples 0 samples) (take 3000 newText) in
        ([req],
         case compareAuthorship_try ai parse req of
           Inl e \<Rightarrow> Inr analysisFailed
         | Inr r \<Rightarrow> Inr r))"


section \<open>Binary64 arithmetic\<close>

text \<open>
  JavaScript evaluates \<open>+\<close>, \<open>-\<close>, \<open>*\<close> and \<open>/\<close> on IEEE-754 binary64 values: the exact
  result is rounded to the nearest value with a 53-bit significand, ties to the even
  significand. \<open>exponent x\<close> is, for \<open>x > 0\<close>, the \<open>e\<close> with \<open>2^e \<le> x < 2^(e+1)\<close>. Below
  \<open>2^-1022\<close> the spacing stays \<open>2^-1074\<close> (the subnormal numbers), and a result that rounds
  to \<open>2^1024\<close> or beyond is an infinity. The operations on infinities and NaN follow
  IEEE-754; a zero divisor is taken as \<open>+0\<close>.
  \<open>Math.round\<close> is exact on a finite value: the nearest integer, a tie going up.
\<close>

datatype double = Finite rat | PosInfinity | NegInfinity | NaN

definition roundTiesToEven :: "rat \<Rightarrow> int" where
  "roundTiesToEven x =
     (let f = \<lfloor>x\<rfloor>; d = x - of_int f
      in if d < 1 / 2 then f else if 1 / 2 < d then f + 1 else if even f then f else f + 1)"

definition exponent :: "rat \<Rightarrow> int" where
  "exponent x = (if 1 \<le> x then bitlen \<lfloor>x\<rfloor> - 1 else - bitlen (\<lceil>1 / x\<rceil> - 1))"

definition ulp :: "rat \<Rightarrow> rat" where
  "ulp x = 2 powi (max (exponent \<bar>x\<bar>) (- 1022) - 52)"

definition roundToSignificand :: "rat \<Rightarrow> rat" where
  "roundToSignificand x = of_int (roundTiesToEven (x / ulp x)) * ulp x"

definition binary64 :: "rat \<Rightarrow> double" where
  "binary64 x =
     (if x = 0 then Finite 0
      else let r = roundToSignificand x
           in if 2 powi 1024 \<le> \<bar>r\<bar> then (if 0 < x then PosInfinity else NegInfinity)
              else Finite r)"

fun is_negative :: "double \<Rightarrow> bool" where
  "is_negative (Finite a) = (a < 0)"
| "is_negative NegInfinity = True"
| "is_negative _ = False"

fun js_neg :: "double \<Rightarrow> double" where
  "js_neg (Finite a) = Finite (- a)"
| "js_neg PosInfinity = NegInfinity"
| "js_neg NegInfinity = PosInfinity"
| "js_neg NaN = NaN"

fun js_add :: "double \<Rightarrow> double \<Rightarrow> double" where
  "js_add (Finite a) (Finite b) = binary64 (a + b)"
| "js_add NaN _ = NaN"
| "js_add _ NaN = NaN"
| "js_add PosInfinity NegInfinity = NaN"
| "js_add NegInfinity PosInfinity = NaN"
| "js_add PosInfinity _ = PosInfinity"
| "js_add _ PosInfinity = PosInfinity"
| "js_add NegInfinity _ = NegInfinity"
| "js_add _ NegInfinity = NegInfinity"

definition js_sub :: "double \<Rightarrow> double \<Rightarrow> double" where
  "js_sub a b = js_add a (js_neg b)"

fun js_mul :: "double \<Rightarrow> double \<Rightarrow> double" where
  "js_mul (Finite a) (Finite b) = binary64 (a * b)"
| "js_mul NaN _ = NaN"
| "js_mul _ NaN = NaN"
| "js_mul a b =
     (if a = Finite 0 \<or> b = Finite 0 then NaN
      else if is_negative a \<noteq> is_negative b then NegInfinity else PosInfinity)"

fun js_div :: "double \<Rightarrow> double \<Rightarrow> double" where
  "js_div (Finite a) (Finite b) =
     (if b = 0 then (if a = 0 then NaN else if 0 < a then PosInfinity else NegInfinity)
      else binary64 (a / b))"
| "js_div NaN _ = NaN"
| "js_div _ NaN = NaN"
| "js_div (Finite a) _ = Finite 0"
| "js_div a (Finite b) =
     (if is_negative a \<noteq> is_negative (Finite b) then NegInfinity else PosInfinity)"
| "js_div _ _ = NaN"

fun js_gt :: "double \<Rightarrow> double \<Rightarrow> bool" where
  "js_gt (Finite a) (Finite b) = (b < a)"
| "js_gt NaN _ = False"
| "js_gt _ NaN = False"
| "js_gt PosInfinity PosInfinity = False"
| "js_gt PosInfinity _ = True"
| "js_gt _ PosInfinity = False"
| "js_gt NegInfinity _ = False"
| "js_gt _ NegInfinity = True"

fun Math_round :: "double \<Rightarrow> double" where
  "Math_round (Finite x) = Finite (of_int (round x))"
| "Math_round d = d"

text \<open>\<open>JSON.stringify\<close> writes a finite number as it is and any other as \<open>null\<close>.\<close>

fun jsonNumber :: "double \<Rightarrow> number option" where
  "jsonNumber (Finite x) = Some x"
| "jsonNumber _ = None"


section \<open>Submission (OnboardingFlow.submitApplication)\<close>

text \<open>The two \<open>reduce\<close> calls and the normalisation of the score.\<close>

definition totalPoints :: "RubricCriterion list \<Rightarrow> double" where
  "totalPoints currentRubric =
     foldl (\<lambda>acc r. js_add acc (Finite (rc_maxPoints r))) (Finite 0) currentRubric"

definition earnedPoints :: "RubricScore list \<Rightarrow> double" where
  "earnedPoints rubricScores =
     foldl (\<lambda>acc r. js_add acc (Finite (rs_score r))) (Finite 0) rubricScores"

definition normalizedScore :: "double \<Rightarrow> double \<Rightarrow> double" where
  "normalizedScore earnedPts totalPts =
     (if js_gt totalPts (Finite 0)
      then Math_round (js_mul (js_div earnedPts totalPts) (Finite 100))
      else Finite 0)"

definition getPromptForTrack :: "Track option \<Rightarrow> string" where
  "getPromptForTrack t =
     (case t of
        Some TECHNICAL \<Rightarrow> ''Explain the concept of 'Recursion' to a 10-year-old, then provide a Python example for a technical audience.''
      | Some ACADEMIC \<Rightarrow> ''Critically analyze the impact of Remote Work on urban planning in post-2020 cities. Cite hypothetical sources.''
      | _ \<Rightarrow> ''Discuss the ethical implications of Artificial Intelligence in creative industries.'')"

text \<open>
  The component state that \<open>submitApplication\<close> reads and writes, and the world around it:
  the browser storage, the \<open>alert\<close> dialogs shown so far and the requests sent to the service.
  \<open>Date.now()\<close> is read twice; both readings are parameters. A state set and overwritten
  within one call (\<open>loading\<close>, \<open>progressStatus\<close>) appears with its final value only, and
  \<open>console.error\<close> is not modelled.
\<close>

record OnboardingState =
  formData :: WriterProfile
  step :: nat
  loading :: bool
  progressStatus :: string
  assessmentText :: string
  startTime :: number
  pasteCount :: number

record World =
  ui :: OnboardingState
  storage :: Storage
  alerts :: "string list"
  requests :: "Request list"

record Env =
  service :: Service
  parseAnalysis :: "string \<Rightarrow> AiAnalysisResponse option"
  parseAuthorship :: "string \<Rightarrow> AuthorshipResult option"
  now1 :: number
  now2 :: number

definition submissionError :: string where
  "submissionError = ''There was an error processing your application. Please check your connection and try again.''"

definition newProfile ::
  "Env \<Rightarrow> OnboardingState \<Rightarrow> RubricCriterion list \<Rightarrow> AiAnalysisResponse \<Rightarrow> PlagiarismResult
     \<Rightarrow> AuthorshipResult \<Rightarrow> WriterProfile" where
  "newProfile env st currentRubric assessmentAnalysis plagiarismResult authorshipCheck =
     (formData st)
       \<lparr>wp_status := REVIEWING,
        wp_assessment := Some
          \<lparr>as_taskPrompt = getPromptForTrack (wp_track (formData st)),
           as_submission = assessmentText st,
           as_result = Some
             \<lparr>ar_overallScore =
                jsonNumber
                  (normalizedScore (earnedPoints (an_rubricScores assessmentAnalysis))
                     (totalPoints currentRubric)),
              ar_rubricScores = an_rubricScores assessmentAnalysis,
              ar_feedback = an_feedback assessmentAnalysis,
              ar_authorshipMatchScore = au_matchScore authorshipCheck,
              ar_metrics = an_metrics assessmentAnalysis,
              ar_plagiarism = Some plagiarismResult,
              ar_timeTakenSeconds =
                jsonNumber
                  (js_div (js_sub (Finite (now1 env)) (Finite (startTime st))) (Finite 1000)),
              ar_pasteCount = Some (pasteCount st)\<rparr>,
           as_meta = \<lparr>meta_startTime = startTime st, meta_endTime = now2 env,
                      meta_pasteCount = pasteCount st\<rparr>\<rparr>\<rparr>"

definition logRequests :: "Request list \<Rightarrow> World \<Rightarrow> World" where
  "logRequests calls w = w\<lparr>requests := requests w @ calls\<rparr>"

definition catchSubmission :: "World \<Rightarrow> World" where
  "catchSubmission w = w\<lparr>alerts := alerts w @ [submissionError]\<rparr>"

definition finallySubmission :: "World \<Rightarrow> World" where
  "finallySubmission w = w\<lparr>ui := (ui w)\<lparr>loading := False, progressStatus := []\<rparr>\<rparr>"

text \<open>
  The body of the \<open>try\<close> block, each \<open>await\<close> either giving a value or throwing.
  The parsers give values of the declared types. A reply that parses to a value of another
  shape (an object without \<open>rubricScores\<close>, or \<open>null\<close> for the authorship check) makes the
  source throw a TypeError after the three awaits, which its \<open>catch\<close> answers with the alert,
  saving nothing; such replies are not values of this model.
\<close>

definition submitApplication_try :: "Env \<Rightarrow> World \<Rightarrow> World" where
  "submitApplication_try env w =
     (let currentRubric = getRubric (storage w);
          text = assessmentText (ui w);
          (calls1, assessmentAnalysis) =
             analyzeWritingStyle (service env) (parseAnalysis env) text currentRubric;
          w1 = logRequests calls1 w
      in (case assessmentAnalysis of
            Inl e \<Rightarrow> catchSubmission w1
          | Inr a \<Rightarrow>
             (let (calls2, plagiarismResult) = checkPlagiarism (service env) text;
                  w2 = logRequests calls2 w1
              in (case plagiarismResult of
                    Inl e \<Rightarrow> catchSubmission w2
                  | Inr p \<Rightarrow>
                     (let (calls3, authorshipCheck) =
                            compareAuthorship (service env) (parseAuthorship env)
                              (wp_samples (formData (ui w))) text;
                          w3 = logRequests calls3 w2
                      in (case authorshipCheck of
                            Inl e \<Rightarrow> catchSubmission w3
                          | Inr c \<Rightarrow>
                              w3\<lparr>storage :=
                                    saveApplicant (newProfile env (ui w) currentRubric a p c)
                                      (storage w3),
                                 ui := (ui w3)\<lparr>step := 5\<rparr>\<rparr>))))))"

definition submitApplication :: "Env \<Rightarrow> World \<Rightarrow> World" where
  "submitApplication env w =
     (if wp_fullName (formData (ui w)) = [] \<or> wp_email (formData (ui w)) = []
         \<or> wp_track (formData (ui w)) = None
      then w
      else finallySubmission (submitApplication_try env w))"


section \<open>Example data\<close>

definition profileWithId :: "string \<Rightarrow> string \<Rightarrow> WriterProfile" where
  "profileWithId i name =
     \<lparr>wp_id = i, wp_fullName = name, wp_email = ''a@b.c'', wp_track = Some TECHNICAL,
      wp_experienceYears = 3, wp_bio = [], wp_samples = [], wp_assessment = None,
      wp_status = PROFILE_SUBMITTED, wp_appliedDate = ''2024-01-01''\<rparr>"

definition emptyStorage :: Storage where
  "emptyStorage = \<lparr>veriscript_applicants = None, veriscript_rubric = None\<rparr>"

definition sampleOf :: "string \<Rightarrow> WritingSample" where
  "sampleOf content =
     \<lparr>ws_id = ''s1'', ws_title = ''essay.txt'', ws_content = content, ws_type = UPLOADED_SAMPLE,
      ws_dateSubmitted = ''2024-01-01''\<rparr>"

definition criterion :: "string \<Rightarrow> number \<Rightarrow> RubricCriterion" where
  "criterion i pts =
     \<lparr>rc_id = i, rc_category = ''New Criterion'', rc_description = ''Description'',
      rc_maxPoints = pts\<rparr>"

definition scoreOf :: "string \<Rightarrow> number \<Rightarrow> RubricScore" where
  "scoreOf i pts = \<lparr>rs_criterionId = i, rs_score = pts, rs_comments = []\<rparr>"

definition longText :: string where
  "longText = replicate 120 (CHR ''a'')"

definition jsonReply :: GenerateContentResponse where
  "jsonReply = \<lparr>resp_text = Some ''{}'', groundingChunks = None\<rparr>"

definition groundedReply :: "nat \<Rightarrow> GenerateContentResponse" where
  "groundedReply n =
     \<lparr>resp_text = Some ''Matches found.'',
      groundingChunks = Some
        (\<lparr>web = None\<rparr> #
         replicate n \<lparr>web = Some \<lparr>src_title = ''Example'', src_uri = ''https://example.org''\<rparr>\<rparr>)\<rparr>"

definition analysisWith :: "RubricScore list \<Rightarrow> AiAnalysisResponse" where
  "analysisWith scores =
     \<lparr>an_metrics = \<lparr>vocabularyRichness = 70, sentenceComplexity = 60, passiveVoiceUsage = 10,
                     tone = ''formal'', detectedAiProbability = 5, consistencyScore = 80,
                     keyTraits = [''concise'']\<rparr>,
      an_rubricScores = scores, an_feedback = ''Good.'', an_summary = ''Fine.''\<rparr>"

definition worldWith :: "string \<Rightarrow> World" where
  "worldWith text =
     \<lparr>ui = \<lparr>formData = profileWithId ''a'' ''Al'', step = 4, loading = False,
             progressStatus = [], assessmentText = text, startTime = 1000, pasteCount = 0\<rparr>,
      storage = saveApplicant (profileWithId ''a'' ''Al'') emptyStorage,
      alerts = [], requests = []\<rparr>"

definition envWith :: "Service \<Rightarrow> (string \<Rightarrow> AiAnalysisResponse option) \<Rightarrow> Env" where
  "envWith ai parse =
     \<lparr>service = ai, parseAnalysis = parse, parseAuthorship = parseFails,
      now1 = 61000, now2 = 61001\<rparr>"


section \<open>The profile store\<close>

lemma findIndex_None_iff: "findIndex P xs = None \<longleftrightarrow> (\<forall>x \<in> set xs. \<not> P x)"
  by (induction xs) (auto split: option.splits)

lemma findIndex_Some:
  "findIndex P xs = Some i \<Longrightarrow> i < length xs \<and> P (xs ! i) \<and> (\<forall>j < i. \<not> P (xs ! j))"
proof (induction xs arbitrary: i)
  case Nil
  then show ?case by simp
next
  case (Cons x xs)
  show ?case
  proof (cases "P x")
    case True
    with Cons.prems show ?thesis by simp
  next
    case False
    with Cons.prems obtain k where k: "findIndex P xs = Some k" "i = Suc k"
      by (auto split: option.splits)
    from Cons.IH [OF k(1)] False k(2) show ?thesis
      by (auto simp: less_Suc_eq_0_disj)
  qed
qed

lemma find_update_first:
  "findIndex P xs = Some i \<Longrightarrow> P y \<Longrightarrow> find P (xs[i := y]) = Some y"
  by (induction xs arbitrary: i) (auto split: option.splits if_splits)

lemma find_append_fresh:
  "findIndex P xs = None \<Longrightarrow> P y \<Longrightarrow> find P (xs @ [y]) = Some y"
  by (induction xs) (auto split: option.splits if_splits)

lemma filter_update_first:
  "findIndex P xs = Some i \<Longrightarrow> P y \<Longrightarrow>
     filter (\<lambda>x. \<not> P x) (xs[i := y]) = filter (\<lambda>x. \<not> P x) xs"
  by (induction xs arbitrary: i) (auto split: option.splits if_splits)

lemma getApplicants_stored: "getApplicants (st\<lparr>veriscript_applicants := Some xs\<rparr>) = xs"
  by (simp add: getApplicants_def)

lemma getApplicants_saveApplicant:
  "getApplicants (saveApplicant p st) =
     (case findIndex (\<lambda>q. wp_id q = wp_id p) (getApplicants st) of
        Some i \<Rightarrow> (getApplicants st)[i := p]
      | None \<Rightarrow> getApplicants st @ [p])"
  by (simp add: saveApplicant_def Let_def getApplicants_stored)

text \<open>
  Claim C10. For every profile \<open>p\<close> and every prior state of the store, after
  \<open>saveApplicant p\<close> the lookup \<open>getApplicantById (wp_id p)\<close> returns \<open>p\<close>. If a profile
  with that id was stored, the first such profile is replaced in place; otherwise \<open>p\<close> is
  appended at the end. The profiles with another id are unchanged and keep their order, and
  the stored rubric is untouched.
\<close>

theorem saveApplicant_upsert:
  fixes p :: WriterProfile and st :: Storage
  defines "old \<equiv> getApplicants st"
  defines "new \<equiv> getApplicants (saveApplicant p st)"
  shows "getApplicantById (saveApplicant p st) (wp_id p) = Some p
    \<and> ((\<exists>q \<in> set old. wp_id q = wp_id p) \<longrightarrow>
         (\<exists>i < length old. wp_id (old ! i) = wp_id p \<and> (\<forall>j < i. wp_id (old ! j) \<noteq> wp_id p)
            \<and> new = old[i := p]))
    \<and> ((\<forall>q \<in> set old. wp_id q \<noteq> wp_id p) \<longrightarrow> new = old @ [p])
    \<and> filter (\<lambda>q. wp_id q \<noteq> wp_id p) new = filter (\<lambda>q. wp_id q \<noteq> wp_id p) old
    \<and> veriscript_rubric (saveApplicant p st) = veriscript_rubric st"
proof (cases "findIndex (\<lambda>q. wp_id q = wp_id p) old")
  case None
  then have new: "new = old @ [p]"
    by (simp add: new_def old_def getApplicants_saveApplicant)
  have fresh: "\<forall>q \<in> set old. wp_id q \<noteq> wp_id p"
    using None by (simp add: findIndex_None_iff)
  have "find (\<lambda>q. wp_id q = wp_id p) new = Some p"
    unfolding new using None by (rule find_append_fresh) simp
  moreover have "filter (\<lambda>q. wp_id q \<noteq> wp_id p) new = filter (\<lambda>q. wp_id q \<noteq> wp_id p) old"
    using fresh by (simp add: new)
  moreover have "veriscript_rubric (saveApplicant p st) = veriscript_rubric st"
    by (simp add: saveApplicant_def Let_def)
  ultimately show ?thesis
    using fresh new by (auto simp: getApplicantById_def new_def)
next
  case (Some i)
  then have new: "new = old[i := p]"
    by (simp add: new_def old_def getApplicants_saveApplicant)
  from findIndex_Some [OF Some]
  have i: "i < length old" "wp_id (old ! i) = wp_id p" "\<forall>j < i. wp_id (old ! j) \<noteq> wp_id p"
    by auto
  have "find (\<lambda>q. wp_id q = wp_id p) new = Some p"
    unfolding new using Some by (rule find_update_first) simp
  moreover have "filter (\<lambda>q. wp_id q \<noteq> wp_id p) new = filter (\<lambda>q. wp_id q \<noteq> wp_id p) old"
    unfolding new using filter_update_first [OF Some, of p] by simp
  moreover have "veriscript_rubric (saveApplicant p st) = veriscript_rubric st"
    by (simp add: saveApplicant_def Let_def)
  moreover have "\<not> (\<forall>q \<in> set old. wp_id q \<noteq> wp_id p)"
    using i(1,2) nth_mem by blast
  ultimately show ?thesis
    using i new by (auto simp: getApplicantById_def new_def)
qed

theorem saveApplicant_upsert_witness:
  "(\<exists>q \<in> set (getApplicants (saveApplicant (profileWithId ''b'' ''Bo'')
        (saveApplicant (profileWithId ''a'' ''Al'') emptyStorage))). wp_id q = ''a'')
   \<and> getApplicants (saveApplicant (profileWithId ''a'' ''Alice'')
        (saveApplicant (profileWithId ''b'' ''Bo'')
          (saveApplicant (profileWithId ''a'' ''Al'') emptyStorage)))
       = [profileWithId ''a'' ''Alice'', profileWithId ''b'' ''Bo'']
   \<and> map wp_id (getApplicants (saveApplicant (profileWithId ''a'' ''Al'') emptyStorage)) = [''a'']
   \<and> getApplicants (saveApplicant (profileWithId ''b'' ''Bo'')
        (saveApplicant (profileWithId ''a'' ''Al'') emptyStorage))
       = [profileWithId ''a'' ''Al'', profileWithId ''b'' ''Bo'']
   \<and> getApplicantById (saveApplicant (profileWithId ''a'' ''Alice'')
        (saveApplicant (profileWithId ''b'' ''Bo'')
          (saveApplicant (profileWithId ''a'' ''Al'') emptyStorage))) ''a''
       = Some (profileWithId ''a'' ''Alice'')"
  using saveApplicant_upsert [of "profileWithId ''a'' ''Alice''"
      "saveApplicant (profileWithId ''b'' ''Bo'') (saveApplicant (profileWithId ''a'' ''Al'') emptyStorage)"]
    saveApplicant_upsert [of "profileWithId ''b'' ''Bo''"
      "saveApplicant (profileWithId ''a'' ''Al'') emptyStorage"]
  by (simp add: saveApplicant_def getApplicants_def getApplicantById_def emptyStorage_def
      profileWithId_def Let_def)

text \<open>
  Claim C9, as amended. \<open>saveRubric\<close> validates nothing: every rubric, malformed or not, is
  stored as given, and \<open>getRubric\<close> then returns it to the pipeline; the applicants are
  untouched.
\<close>

theorem saveRubric_stores_unchecked:
  "veriscript_rubric (saveRubric rubric st) = Some rubric
   \<and> getRubric (saveRubric rubric st) = rubric
   \<and> veriscript_applicants (saveRubric rubric st) = veriscript_applicants st"
  by (simp add: saveRubric_def getRubric_def)

text \<open>
  The claim as stated (a rubric with duplicate ids or non-positive points is rejected at save
  time) fails: a rubric with twice the id \<open>1\<close> and \<open>-5\<close> points is stored and read back.
\<close>

theorem saveRubric_malformed_counterexample:
  "getRubric (saveRubric [criterion ''1'' 10, criterion ''1'' (- 5)] emptyStorage)
     = [criterion ''1'' 10, criterion ''1'' (- 5)]
   \<and> rc_id (criterion ''1'' 10) = rc_id (criterion ''1'' (- 5))
   \<and> rc_maxPoints (criterion ''1'' (- 5)) \<le> 0"
  by (simp add: saveRubric_def getRubric_def criterion_def emptyStorage_def)


section \<open>Binary64 rounding\<close>

text \<open>
  Rounding to binary64 is monotone, exact on the integers below \<open>2^53\<close>, gives an infinity
  from \<open>2^1024\<close> on, and on \<open>0 < x \<le> c\<close> has an error of at most \<open>c / 2^53\<close>.
\<close>

lemma roundTiesToEven_of_int: "roundTiesToEven (of_int n) = n"
  by (simp add: roundTiesToEven_def)

lemma roundTiesToEven_range: "\<lfloor>x\<rfloor> \<le> roundTiesToEven x \<and> roundTiesToEven x \<le> \<lfloor>x\<rfloor> + 1"
  by (simp add: roundTiesToEven_def Let_def)

lemma roundTiesToEven_mono:
  assumes "x \<le> y"
  shows "roundTiesToEven x \<le> roundTiesToEven y"
proof (cases "\<lfloor>x\<rfloor> = \<lfloor>y\<rfloor>")
  case True
  with assms show ?thesis
    by (auto simp: roundTiesToEven_def Let_def)
next
  case False
  with assms have "\<lfloor>x\<rfloor> + 1 \<le> \<lfloor>y\<rfloor>"
    using floor_mono [of x y] by linarith
  with roundTiesToEven_range [of x] roundTiesToEven_range [of y] show ?thesis
    by linarith
qed


lemma exponent_bounds:
  assumes "0 < x"
  shows "2 powi exponent x \<le> x \<and> x < 2 powi (exponent x + 1)"
proof (cases "1 \<le> x")
  case True
  define n where "n = \<lfloor>x\<rfloor>"
  have n: "1 \<le> n" "of_int n \<le> x" "x < of_int n + 1"
    unfolding n_def using True by linarith+
  then have b: "2 ^ nat (bitlen n - 1) \<le> n" "n < 2 ^ nat (bitlen n)"
    using bitlen_bounds [of n] by auto
  have b1: "1 \<le> bitlen n"
    using n(1) by (auto simp: bitlen_alt_def)
  have e: "exponent x = bitlen n - 1"
    using True by (simp add: exponent_def n_def)
  have "(2::rat) powi (bitlen n - 1) = of_int (2 ^ nat (bitlen n - 1))"
    using b1 by (simp add: power_int_def)
  also have "\<dots> \<le> of_int n"
    using b(1) by (simp only: of_int_le_iff)
  finally have lo: "(2::rat) powi (bitlen n - 1) \<le> x"
    using n(2) by linarith
  have "n + 1 \<le> 2 ^ nat (bitlen n)"
    using b(2) by linarith
  then have "(of_int (n + 1) :: rat) \<le> of_int (2 ^ nat (bitlen n))"
    by (simp only: of_int_le_iff)
  also have "\<dots> = 2 powi (bitlen n)"
    using b1 by (simp add: power_int_def)
  finally have hi: "x < 2 powi (bitlen n)"
    using n(3) by simp
  from lo hi e show ?thesis by simp
next
  case False
  define y where "y = 1 / x"
  define m where "m = \<lceil>y\<rceil> - 1"
  have y1: "1 < y"
    using False assms by (simp add: y_def)
  then have "2 \<le> \<lceil>y\<rceil>"
    by (simp add: le_ceiling_iff)
  then have m1: "1 \<le> m"
    by (simp add: m_def)
  have my: "of_int m < y" "y \<le> of_int m + 1"
    unfolding m_def using ceiling_correct [of y] by auto
  have b: "2 ^ nat (bitlen m - 1) \<le> m" "m < 2 ^ nat (bitlen m)"
    using bitlen_bounds [of m] m1 by auto
  have b1: "1 \<le> bitlen m"
    using m1 by (auto simp: bitlen_alt_def)
  have e: "exponent x = - bitlen m"
    using False by (simp add: exponent_def m_def y_def)
  have "(2::rat) powi (bitlen m - 1) = of_int (2 ^ nat (bitlen m - 1))"
    using b1 by (simp add: power_int_def)
  also have "\<dots> \<le> of_int m"
    using b(1) by (simp only: of_int_le_iff)
  finally have lo: "(2::rat) powi (bitlen m - 1) < y"
    using my(1) by linarith
  have "m + 1 \<le> 2 ^ nat (bitlen m)"
    using b(2) by linarith
  then have "(of_int (m + 1) :: rat) \<le> of_int (2 ^ nat (bitlen m))"
    by (simp only: of_int_le_iff)
  also have "\<dots> = 2 powi (bitlen m)"
    using b1 by (simp add: power_int_def)
  finally have hi: "y \<le> 2 powi (bitlen m)"
    using my(2) by simp
  have x: "x = 1 / y"
    using assms by (simp add: y_def)
  have p: "(0::rat) < 2 powi (bitlen m)" "(0::rat) < 2 powi (bitlen m - 1)"
    by simp_all
  have "1 / (2 powi (bitlen m)) \<le> 1 / y"
    using hi y1 by (intro divide_left_mono) auto
  then have A: "2 powi (- bitlen m) \<le> x"
    by (simp add: x power_int_minus field_simps)
  have "1 / y < 1 / (2 powi (bitlen m - 1))"
    using lo p(2) y1 by (simp add: field_simps)
  also have "\<dots> = 2 powi (- bitlen m + 1)"
    using power_int_minus [of "2::rat" "bitlen m - 1"] by (simp add: divide_inverse)
  finally have B: "x < 2 powi (- bitlen m + 1)"
    by (simp add: x)
  from A B e show ?thesis by simp
qed

lemma exponent_mono:
  assumes "0 < x" "x \<le> y"
  shows "exponent x \<le> exponent y"
proof (rule ccontr)
  assume "\<not> exponent x \<le> exponent y"
  then have "exponent y + 1 \<le> exponent x"
    by simp
  then have "(2::rat) powi (exponent y + 1) \<le> 2 powi exponent x"
    by (intro power_int_increasing) auto
  moreover have "2 powi exponent x \<le> x"
    using exponent_bounds [OF assms(1)] by simp
  moreover have "y < 2 powi (exponent y + 1)"
    using exponent_bounds [of y] assms by simp
  ultimately show False
    using assms(2) by linarith
qed


lemma ulp_pos: "0 < ulp x"
  by (simp add: ulp_def)

lemma ulp_positive_arg:
  "0 < x \<Longrightarrow> ulp x = 2 powi (max (exponent x) (- 1022) - 52)"
  by (simp add: ulp_def)

lemma roundToSignificand_nonneg:
  assumes "0 < x"
  shows "0 \<le> roundToSignificand x"
proof -
  have "0 \<le> x / ulp x"
    using assms ulp_pos [of x] by simp
  then have "roundTiesToEven (of_int 0) \<le> roundTiesToEven (x / ulp x)"
    by (simp only: of_int_0 roundTiesToEven_mono)
  then have "0 \<le> roundTiesToEven (x / ulp x)"
    by (simp only: roundTiesToEven_of_int)
  then show ?thesis
    using ulp_pos [of x] by (simp add: roundToSignificand_def)
qed

lemma roundToSignificand_upper:
  assumes "0 < x"
  shows "roundToSignificand x \<le> 2 powi (max (exponent x) (- 1022) + 1)"
proof -
  define e where "e = max (exponent x) (- 1022)"
  define B :: int where "B = 2 ^ 53"
  have u: "ulp x = 2 powi (e - 52)"
    using assms by (simp add: ulp_positive_arg e_def)
  have hi: "2 powi (e + 1) = of_int B * ulp x"
    by (simp add: u B_def power_int_diff power_int_add)
  have "x < 2 powi (exponent x + 1)"
    using exponent_bounds [OF assms] by simp
  also have "\<dots> \<le> 2 powi (e + 1)"
    by (intro power_int_increasing) (auto simp: e_def)
  finally have "x \<le> of_int B * ulp x"
    unfolding hi by simp
  then have "x / ulp x \<le> of_int B"
    using ulp_pos [of x] by (simp add: field_simps)
  then have "roundTiesToEven (x / ulp x) \<le> roundTiesToEven (of_int B)"
    by (rule roundTiesToEven_mono)
  then have "roundTiesToEven (x / ulp x) \<le> B"
    by (simp only: roundTiesToEven_of_int)
  then have "(of_int (roundTiesToEven (x / ulp x)) :: rat) \<le> of_int B"
    by (simp only: of_int_le_iff)
  then have "roundToSignificand x \<le> of_int B * ulp x"
    using ulp_pos [of x] by (simp only: roundToSignificand_def mult_le_cancel_right_pos)
  with hi show ?thesis
    unfolding e_def by simp
qed

lemma roundToSignificand_lower:
  assumes "0 < x" "- 1022 \<le> exponent x"
  shows "2 powi exponent x \<le> roundToSignificand x"
proof -
  define A :: int where "A = 2 ^ 52"
  have u: "ulp x = 2 powi (exponent x - 52)"
    using assms by (simp add: ulp_positive_arg max_def)
  have lo: "2 powi exponent x = of_int A * ulp x"
    by (simp add: u A_def power_int_diff)
  have "of_int A * ulp x \<le> x"
    using exponent_bounds [OF assms(1)] unfolding lo by simp
  then have "of_int A \<le> x / ulp x"
    using ulp_pos [of x] by (simp add: field_simps)
  then have "roundTiesToEven (of_int A) \<le> roundTiesToEven (x / ulp x)"
    by (rule roundTiesToEven_mono)
  then have "A \<le> roundTiesToEven (x / ulp x)"
    by (simp only: roundTiesToEven_of_int)
  then have "(of_int A :: rat) \<le> of_int (roundTiesToEven (x / ulp x))"
    by (simp only: of_int_le_iff)
  then have "of_int A * ulp x \<le> roundToSignificand x"
    using ulp_pos [of x] by (simp only: roundToSignificand_def mult_le_cancel_right_pos)
  then show ?thesis
    by (simp only: lo)
qed

lemma roundToSignificand_mono:
  assumes "0 < x" "x \<le> y"
  shows "roundToSignificand x \<le> roundToSignificand y"
proof -
  define ex where "ex = max (exponent x) (- 1022)"
  define ey where "ey = max (exponent y) (- 1022)"
  have y: "0 < y"
    using assms by simp
  have le: "ex \<le> ey"
    using exponent_mono [OF assms] by (simp add: ex_def ey_def)
  show ?thesis
  proof (cases "ex = ey")
    case True
    then have u: "ulp x = ulp y"
      using assms y by (simp add: ulp_positive_arg ex_def ey_def)
    have "x / ulp y \<le> y / ulp y"
      using assms(2) ulp_pos [of y] by (simp add: divide_right_mono)
    then have "roundTiesToEven (x / ulp y) \<le> roundTiesToEven (y / ulp y)"
      by (rule roundTiesToEven_mono)
    then have "(of_int (roundTiesToEven (x / ulp y)) :: rat) * ulp y
        \<le> of_int (roundTiesToEven (y / ulp y)) * ulp y"
      using ulp_pos [of y] by (simp only: mult_le_cancel_right_pos of_int_le_iff)
    then show ?thesis
      by (simp add: roundToSignificand_def u)
  next
    case False
    with le have lt: "ex + 1 \<le> ey"
      by simp
    then have normal: "ey = exponent y" "- 1022 \<le> exponent y"
      by (auto simp: ex_def ey_def max_def split: if_splits)
    have "roundToSignificand x \<le> 2 powi (ex + 1)"
      using roundToSignificand_upper [OF assms(1)] by (simp add: ex_def)
    also have "\<dots> \<le> 2 powi ey"
      using lt by (intro power_int_increasing) auto
    also have "\<dots> \<le> roundToSignificand y"
      using roundToSignificand_lower [OF y normal(2)] by (simp add: normal(1))
    finally show ?thesis .
  qed
qed






lemma binary64_finite_mono:
  assumes "0 \<le> a" "a \<le> b" "binary64 b = Finite rb"
  shows "\<exists>ra. binary64 a = Finite ra \<and> 0 \<le> ra \<and> ra \<le> rb"
proof (cases "b = 0")
  case True
  with assms show ?thesis
    by (auto simp: binary64_def)
next
  case False
  with assms have b: "0 < b"
    by simp
  from assms(3) False have rb: "rb = roundToSignificand b" "\<not> 2 powi 1024 \<le> \<bar>rb\<bar>"
    by (auto simp: binary64_def Let_def split: if_splits)
  have rb0: "0 \<le> rb"
    unfolding rb(1) using b by (rule roundToSignificand_nonneg)
  show ?thesis
  proof (cases "a = 0")
    case True
    with rb0 show ?thesis
      by (simp add: binary64_def)
  next
    case False
    with assms have a: "0 < a"
      by simp
    have "0 \<le> roundToSignificand a" "roundToSignificand a \<le> rb"
      unfolding rb(1) using a assms(2)
      by (simp_all add: roundToSignificand_nonneg roundToSignificand_mono)
    with rb(2) rb0 a show ?thesis
      by (auto simp: binary64_def Let_def)
  qed
qed



lemma exponent_ge:
  assumes "2 powi k \<le> x"
  shows "k \<le> exponent x"
proof (rule ccontr)
  assume "\<not> k \<le> exponent x"
  then have "(2::rat) powi (exponent x + 1) \<le> 2 powi k"
    by (intro power_int_increasing) auto
  moreover have "0 < x"
    using assms zero_less_power_int [of "2::rat" k] by linarith
  then have "x < 2 powi (exponent x + 1)"
    using exponent_bounds [of x] by simp
  ultimately show False
    using assms by linarith
qed

lemma binary64_overflow:
  assumes "2 powi 1024 \<le> x"
  shows "binary64 x = PosInfinity"
proof -
  have pos: "0 < x"
    using assms zero_less_power_int [of "2::rat" 1024] by linarith
  have e: "1024 \<le> exponent x"
    using assms by (rule exponent_ge)
  then have "(2::rat) powi 1024 \<le> 2 powi exponent x"
    by (intro power_int_increasing) auto
  also have "\<dots> \<le> roundToSignificand x"
    using e by (intro roundToSignificand_lower [OF pos]) simp
  finally have "2 powi 1024 \<le> \<bar>roundToSignificand x\<bar>"
    by linarith
  then show ?thesis
    using pos by (simp add: binary64_def Let_def)
qed


lemma foldl_js_add_not_finite:
  assumes "d = PosInfinity \<or> d = NegInfinity \<or> d = NaN"
  shows "foldl (\<lambda>acc r. js_add acc (Finite (f r))) d xs = d"
  using assms by (induction xs) auto

lemma binary64_nonneg_cases:
  assumes "0 \<le> x"
  shows "(\<exists>r. binary64 x = Finite r) \<or> binary64 x = PosInfinity"
  using assms by (auto simp: binary64_def Let_def)

text \<open>
  The sums of the two \<open>reduce\<close> calls keep the order of their summands: when every score lies
  between 0 and the points of its criterion and the total is finite, the points earned are
  finite and lie between 0 and the total.
\<close>

lemma points_fold_le:
  assumes "list_all2 (\<lambda>s c. 0 \<le> rs_score s \<and> rs_score s \<le> rc_maxPoints c) scores rubric"
    and "0 \<le> a" "a \<le> b"
    and "foldl (\<lambda>acc r. js_add acc (Finite (rc_maxPoints r))) (Finite b) rubric = Finite t"
  shows "\<exists>e. foldl (\<lambda>acc r. js_add acc (Finite (rs_score r))) (Finite a) scores = Finite e
    \<and> 0 \<le> e \<and> e \<le> t"
  using assms
proof (induction scores rubric arbitrary: a b rule: list_all2_induct)
  case Nil
  then show ?case by simp
next
  case (Cons s scores c rubric)
  have le: "0 \<le> a + rs_score s" "a + rs_score s \<le> b + rc_maxPoints c"
    using Cons.hyps(1) Cons.prems by simp_all
  then have "0 \<le> b + rc_maxPoints c"
    by simp
  from binary64_nonneg_cases [OF this]
  obtain b' where b': "binary64 (b + rc_maxPoints c) = Finite b'"
  proof
    assume "\<exists>r. binary64 (b + rc_maxPoints c) = Finite r"
    then show ?thesis
      using that by blast
  next
    assume "binary64 (b + rc_maxPoints c) = PosInfinity"
    then have "foldl (\<lambda>acc r. js_add acc (Finite (rc_maxPoints r))) (Finite b) (c # rubric)
        = PosInfinity"
      by (simp add: foldl_js_add_not_finite)
    with Cons.prems(3) show ?thesis
      by simp
  qed
  from binary64_finite_mono [OF le b']
  obtain a' where a': "binary64 (a + rs_score s) = Finite a'" "0 \<le> a'" "a' \<le> b'"
    by blast
  have "foldl (\<lambda>acc r. js_add acc (Finite (rc_maxPoints r))) (Finite b') rubric = Finite t"
    using Cons.prems(3) b' by simp
  from Cons.IH [OF a'(2,3) this] show ?case
    using a'(1) by simp
qed

lemma earnedPoints_le_totalPoints:
  assumes "list_all2 (\<lambda>s c. 0 \<le> rs_score s \<and> rs_score s \<le> rc_maxPoints c) scores rubric"
    and "totalPoints rubric = Finite t"
  shows "\<exists>e. earnedPoints scores = Finite e \<and> 0 \<le> e \<and> e \<le> t"
  using points_fold_le [OF assms(1), of 0 0 t] assms(2)
  by (simp add: earnedPoints_def totalPoints_def)


section \<open>The stages\<close>

lemma analyzeWritingStyle_short:
  "length txt < 50 \<Longrightarrow> analyzeWritingStyle ai parse txt rubric = ([], Inr (insufficientText rubric))"
  by (simp add: analyzeWritingStyle_def)

lemma analyzeWritingStyle_long:
  "50 \<le> length txt \<Longrightarrow>
     analyzeWritingStyle ai parse txt rubric
       = ([StyleRequest rubric (take 4000 txt)],
          case ai (StyleRequest rubric (take 4000 txt)) of
            Inl e \<Rightarrow> Inl e
          | Inr response \<Rightarrow> parseResponseText parse response)"
  by (auto simp: analyzeWritingStyle_def Let_def)

lemma parseResponseText_Inr_iff:
  "parseResponseText parse response = Inr a
     \<longleftrightarrow> (\<exists>t. resp_text response = Some t \<and> t \<noteq> [] \<and> parse t = Some a)"
  by (auto simp: parseResponseText_def split: option.splits)

lemma parseResponseText_fails:
  "resp_text response = None \<or> resp_text response = Some []
     \<or> (\<exists>t. resp_text response = Some t \<and> parse t = None)
   \<Longrightarrow> \<exists>err. parseResponseText parse response = Inl err"
  by (auto simp: parseResponseText_def split: option.splits)

lemma longText_length: "length longText = 120"
  by (simp add: longText_def)

lemma calculatedScore_eq:
  "calculatedScore n = (if n = 0 then 0 else min 100 (50 + 10 * of_nat n))"
  by (simp add: calculatedScore_def Let_def min_def)

lemma calculatedScore_mono: "m \<le> n \<Longrightarrow> calculatedScore m \<le> calculatedScore n"
  by (auto simp: calculatedScore_eq min_def)

lemma calculatedScore_zero_iff: "calculatedScore n = 0 \<longleftrightarrow> n = 0"
  by (auto simp: calculatedScore_eq min_def) 


text \<open>
  Claim C2. In every run of the plagiarism check that reaches the score derivation (the text
  has at least 50 characters and the service call returns), the score is 0 exactly when the
  list of extracted sources is empty, and otherwise is \<open>min(100, 50 + 10 * number of sources)\<close>;
  1 source gives 60, 3 sources give 80, 6 or more give 100, and the score never decreases
  when the number of sources grows.
\<close>

theorem plagiarism_score_derivation:
  assumes "50 \<le> length text"
    and "ai (PlagiarismRequest (take 1000 text)) = Inr response"
  shows "\<exists>r. snd (checkPlagiarism ai text) = Inr r
           \<and> (pl_score r = 0 \<longleftrightarrow> pl_sources r = [])
           \<and> (pl_sources r \<noteq> [] \<longrightarrow>
                 pl_score r = min 100 (50 + 10 * of_nat (length (pl_sources r))))
           \<and> pl_score r = calculatedScore (length (pl_sources r))
           \<and> calculatedScore 1 = 60 \<and> calculatedScore 3 = 80
           \<and> (\<forall>n \<ge> 6. calculatedScore n = 100)
           \<and> (\<forall>m n. m \<le> n \<longrightarrow> calculatedScore m \<le> calculatedScore n)"
proof -
  have run: "snd (checkPlagiarism ai text) = Inr (plagiarismOf response)"
    using assms by (auto simp: checkPlagiarism_def checkPlagiarism_try_def Let_def)
  have score: "pl_score (plagiarismOf response)
                 = calculatedScore (length (pl_sources (plagiarismOf response)))"
    by (simp add: plagiarismOf_def Let_def)
  have zero: "pl_score (plagiarismOf response) = 0 \<longleftrightarrow> pl_sources (plagiarismOf response) = []"
    unfolding score by (simp add: calculatedScore_zero_iff)
  have pos: "pl_sources (plagiarismOf response) \<noteq> [] \<longrightarrow>
     pl_score (plagiarismOf response)
       = min 100 (50 + 10 * of_nat (length (pl_sources (plagiarismOf response))))"
    unfolding score by (simp add: calculatedScore_eq)
  have ex: "calculatedScore 1 = 60" "calculatedScore 3 = 80"
    by (simp_all add: calculatedScore_eq)
  have cap: "\<forall>n \<ge> 6. calculatedScore n = 100"
    by (auto simp: calculatedScore_eq min_def)
  have mono: "\<forall>m n. m \<le> n \<longrightarrow> calculatedScore m \<le> calculatedScore n"
    by (simp add: calculatedScore_mono)
  from run score zero pos ex cap mono show ?thesis
    by blast
qed

lemma extractSources_replicate_web:
  "extractSources (replicate n \<lparr>web = Some \<lparr>src_title = t, src_uri = u\<rparr>\<rparr>)
     = replicate n \<lparr>src_title = t, src_uri = u\<rparr>"
  by (induction n) simp_all

theorem plagiarism_score_derivation_witness:
  "50 \<le> length longText
   \<and> replyWith (groundedReply 2) (PlagiarismRequest (take 1000 longText)) = Inr (groundedReply 2)
   \<and> (\<exists>r. snd (checkPlagiarism (replyWith (groundedReply 2)) longText) = Inr r
          \<and> pl_score r = 70 \<and> length (pl_sources r) = 2)"
proof -
  have h1: "50 \<le> length longText"
    by (simp add: longText_def)
  have h2: "replyWith (groundedReply 2) (PlagiarismRequest (take 1000 longText))
              = Inr (groundedReply 2)"
    by (simp add: replyWith_def)
  from plagiarism_score_derivation
    [of longText "replyWith (groundedReply 2)" "groundedReply 2", OF h1 h2]
  obtain r where r: "snd (checkPlagiarism (replyWith (groundedReply 2)) longText) = Inr r"
    "pl_score r = calculatedScore (length (pl_sources r))"
    by blast
  have "snd (checkPlagiarism (replyWith (groundedReply 2)) longText)
          = Inr (plagiarismOf (groundedReply 2))"
    using h1 by (auto simp: checkPlagiarism_def checkPlagiarism_try_def replyWith_def Let_def)
  with r(1) have "r = plagiarismOf (groundedReply 2)"
    by simp
  then have "length (pl_sources r) = 2"
    by (simp add: plagiarismOf_def groundedReply_def Let_def extractSources_replicate_web)
  with r h1 h2 show ?thesis
    by (auto simp: calculatedScore_eq)
qed



text \<open>
  Claim C7. For every target text, an empty list of baseline samples gives exactly
  match score 100 with the reason "No baseline to compare against.", and no request is sent.
\<close>

theorem compareAuthorship_no_baseline:
  "compareAuthorship ai parse [] newText
     = ([], Inr \<lparr>au_matchScore = 100, au_reason = ''No baseline to compare against.''\<rparr>)"
  by (simp add: compareAuthorship_def noBaseline_def)

text \<open>
  Claim C6. With a non-empty list of baseline samples the authorship comparison never throws:
  it sends one request and returns a result, and when the call fails, the response has no
  text, or the text does not parse, the result is match score 0 with the reason
  "Analysis failed".
\<close>

theorem compareAuthorship_failure_is_local:
  fixes samples :: "WritingSample list" and newText :: string
  assumes "samples \<noteq> []"
  defines "req \<equiv> AuthorshipRequest (formatSamples 0 samples) (take 3000 newText)"
  shows "(\<exists>r. compareAuthorship ai parse samples newText = ([req], Inr r))
   \<and> ((ai req = Inl e
        \<or> (\<exists>response. ai req = Inr response
              \<and> (resp_text response = None \<or> resp_text response = Some []
                  \<or> (\<exists>t. resp_text response = Some t \<and> parse t = None)))) \<longrightarrow>
       compareAuthorship ai parse samples newText
         = ([req], Inr \<lparr>au_matchScore = 0, au_reason = ''Analysis failed''\<rparr>))"
  using assms(1)
  by (auto simp: compareAuthorship_def compareAuthorship_try_def parseResponseText_def
      analysisFailed_def Let_def req_def split: sum.splits option.splits)

theorem compareAuthorship_failure_is_local_witness:
  "[sampleOf ''Earlier essay.''] \<noteq> []
   \<and> replyWith jsonReply (AuthorshipRequest (formatSamples 0 [sampleOf ''Earlier essay.''])
        (take 3000 longText)) = Inr jsonReply
   \<and> resp_text jsonReply = Some ''{}'' \<and> (parseFails ''{}'' :: AuthorshipResult option) = None
   \<and> snd (compareAuthorship (replyWith jsonReply) parseFails [sampleOf ''Earlier essay.''] longText)
       = Inr \<lparr>au_matchScore = 0, au_reason = ''Analysis failed''\<rparr>"
  using compareAuthorship_failure_is_local
    [where samples = "[sampleOf ''Earlier essay.'']" and ai = "replyWith jsonReply"
       and newText = longText and parse = parseFails]
  by (simp add: replyWith_def jsonReply_def parseFails_def)

text \<open>
  Claim C4, as amended. For every text shorter than 50 characters the style stage and the
  plagiarism stage send no request and return their fixed outputs: zero metrics with one zero
  score per criterion commented "Insufficient text" and the feedback "Text too short to
  analyze.", and score 0 with no sources and "Text too short to check.". The authorship
  stage has no length threshold: it skips the service only when the list of baseline samples
  is empty (returning match score 100); with a baseline it sends its request whatever the
  length of the text.
\<close>

theorem short_text_degenerate_outputs:
  assumes "length txt < 50"
  shows "analyzeWritingStyle ai parse txt rubric
      = ([], Inr \<lparr>an_metrics = \<lparr>vocabularyRichness = 0, sentenceComplexity = 0,
                     passiveVoiceUsage = 0, tone = ''N/A'', detectedAiProbability = 0,
                     consistencyScore = 0, keyTraits = []\<rparr>,
                   an_rubricScores =
                     map (\<lambda>r. \<lparr>rs_criterionId = rc_id r, rs_score = 0,
                                rs_comments = ''Insufficient text''\<rparr>) rubric,
                   an_feedback = ''Text too short to analyze.'',
                   an_summary = ''Insufficient data.''\<rparr>)
    \<and> checkPlagiarism ai txt
      = ([], Inr \<lparr>pl_score = 0, pl_sources = [], pl_analysis = ''Text too short to check.''\<rparr>)
    \<and> compareAuthorship ai parse' [] txt
      = ([], Inr \<lparr>au_matchScore = 100, au_reason = ''No baseline to compare against.''\<rparr>)
    \<and> (samples \<noteq> [] \<longrightarrow>
         fst (compareAuthorship ai parse' samples txt)
           = [AuthorshipRequest (formatSamples 0 samples) (take 3000 txt)])"
  using assms
  by (simp add: analyzeWritingStyle_short insufficientText_def checkPlagiarism_def
      textTooShort_def compareAuthorship_def noBaseline_def Let_def)

theorem short_text_degenerate_outputs_witness:
  "length ''Too short.'' < 50
   \<and> [sampleOf ''Earlier essay.''] \<noteq> []
   \<and> fst (analyzeWritingStyle (failWith NoResponse) parseFails ''Too short.'' DEFAULT_RUBRIC) = []
   \<and> checkPlagiarism (failWith NoResponse) ''Too short.''
      = ([], Inr \<lparr>pl_score = 0, pl_sources = [], pl_analysis = ''Text too short to check.''\<rparr>)
   \<and> fst (compareAuthorship (failWith NoResponse) (parseTo \<lparr>au_matchScore = 42, au_reason = ''Similar tone.''\<rparr>)
          [sampleOf ''Earlier essay.''] ''Too short.'')
      = [AuthorshipRequest [(1, UPLOADED_SAMPLE, ''Earlier essay.'')] ''Too short.'']"
proof -
  have l: "length ''Too short.'' < 50"
    by simp
  from short_text_degenerate_outputs [OF l, of "failWith NoResponse" parseFails DEFAULT_RUBRIC
      "parseTo \<lparr>au_matchScore = 42, au_reason = ''Similar tone.''\<rparr>"
      "[sampleOf ''Earlier essay.'']"]
  show ?thesis
    by (simp add: sampleOf_def)
qed

text \<open>
  The claim as stated fails for the authorship stage: with one baseline sample and a text of
  10 characters the request is sent and the result is the answer of the service.
\<close>

theorem short_text_authorship_counterexample:
  "length ''Too short.'' < 50
   \<and> compareAuthorship (replyWith jsonReply)
         (parseTo \<lparr>au_matchScore = 42, au_reason = ''Similar tone.''\<rparr>)
         [sampleOf ''Earlier essay.''] ''Too short.''
      = ([AuthorshipRequest [(1, UPLOADED_SAMPLE, ''Earlier essay.'')] ''Too short.''],
         Inr \<lparr>au_matchScore = 42, au_reason = ''Similar tone.''\<rparr>)"
  by (simp add: compareAuthorship_def compareAuthorship_try_def parseResponseText_def
      replyWith_def jsonReply_def parseTo_def sampleOf_def Let_def)

text \<open>
  Claim C8, as amended. On a text shorter than 50 characters the style stage returns one score
  per criterion of the rubric, in the order of the rubric. On a longer text it returns
  successfully exactly when the service answers with a non-empty text that parses, and the
  result is the parsed value as it is: the scores are not compared with the rubric.
\<close>

theorem analyzeWritingStyle_rubricScores:
  "(length txt < 50 \<longrightarrow>
      (\<exists>a. analyzeWritingStyle ai parse txt rubric = ([], Inr a)
           \<and> map rs_criterionId (an_rubricScores a) = map rc_id rubric))
   \<and> (50 \<le> length txt \<longrightarrow>
        (snd (analyzeWritingStyle ai parse txt rubric) = Inr a
           \<longleftrightarrow> (\<exists>response t. ai (StyleRequest rubric (take 4000 txt)) = Inr response
                  \<and> resp_text response = Some t \<and> t \<noteq> [] \<and> parse t = Some a)))"
proof (intro conjI impI)
  assume "length txt < 50"
  then have "analyzeWritingStyle ai parse txt rubric = ([], Inr (insufficientText rubric))"
    by (rule analyzeWritingStyle_short)
  moreover have "map rs_criterionId (an_rubricScores (insufficientText rubric)) = map rc_id rubric"
    by (simp add: insufficientText_def comp_def)
  ultimately show "\<exists>a. analyzeWritingStyle ai parse txt rubric = ([], Inr a)
           \<and> map rs_criterionId (an_rubricScores a) = map rc_id rubric"
    by blast
next
  assume "50 \<le> length txt"
  then show "snd (analyzeWritingStyle ai parse txt rubric) = Inr a
           \<longleftrightarrow> (\<exists>response t. ai (StyleRequest rubric (take 4000 txt)) = Inr response
                  \<and> resp_text response = Some t \<and> t \<noteq> [] \<and> parse t = Some a)"
    by (auto simp: analyzeWritingStyle_long parseResponseText_Inr_iff split: sum.splits)
qed

theorem analyzeWritingStyle_rubricScores_witness:
  "length ''Too short.'' < 50
   \<and> (\<exists>a. analyzeWritingStyle (failWith NoResponse) parseFails ''Too short.'' DEFAULT_RUBRIC
             = ([], Inr a)
          \<and> map rs_criterionId (an_rubricScores a) = [''1'', ''2'', ''3'', ''4'', ''5''])
   \<and> 50 \<le> length longText
   \<and> replyWith jsonReply (StyleRequest DEFAULT_RUBRIC (take 4000 longText)) = Inr jsonReply
   \<and> resp_text jsonReply = Some ''{}''
   \<and> parseTo (analysisWith [scoreOf ''1'' 18]) ''{}'' = Some (analysisWith [scoreOf ''1'' 18])
   \<and> snd (analyzeWritingStyle (replyWith jsonReply) (parseTo (analysisWith [scoreOf ''1'' 18]))
            longText DEFAULT_RUBRIC) = Inr (analysisWith [scoreOf ''1'' 18])"
proof -
  have ids: "map rc_id DEFAULT_RUBRIC = [''1'', ''2'', ''3'', ''4'', ''5'']"
    by (simp add: DEFAULT_RUBRIC_def)
  have l: "length ''Too short.'' < 50" "50 \<le> length longText"
    by (simp_all add: longText_length)
  have r: "replyWith jsonReply (StyleRequest DEFAULT_RUBRIC (take 4000 longText)) = Inr jsonReply"
    "resp_text jsonReply = Some ''{}''"
    "parseTo (analysisWith [scoreOf ''1'' 18]) ''{}'' = Some (analysisWith [scoreOf ''1'' 18])"
    by (simp_all add: replyWith_def jsonReply_def parseTo_def)
  from analyzeWritingStyle_rubricScores
    [of "''Too short.''" "failWith NoResponse" parseFails DEFAULT_RUBRIC] l(1)
  have short: "\<exists>a. analyzeWritingStyle (failWith NoResponse) parseFails ''Too short.'' DEFAULT_RUBRIC
             = ([], Inr a)
          \<and> map rs_criterionId (an_rubricScores a) = [''1'', ''2'', ''3'', ''4'', ''5'']"
    unfolding ids by blast
  from analyzeWritingStyle_rubricScores
    [of longText "replyWith jsonReply" "parseTo (analysisWith [scoreOf ''1'' 18])" DEFAULT_RUBRIC
      "analysisWith [scoreOf ''1'' 18]"] l(2) r
  have long: "snd (analyzeWritingStyle (replyWith jsonReply) (parseTo (analysisWith [scoreOf ''1'' 18]))
            longText DEFAULT_RUBRIC) = Inr (analysisWith [scoreOf ''1'' 18])"
    by auto
  from l r short long show ?thesis
    by blast
qed

text \<open>
  The claim as stated (a successful return covers every criterion id exactly once) fails: an
  answer with a score for criterion 1 only is returned for the rubric of five criteria.
\<close>

theorem analyzeWritingStyle_partial_counterexample:
  "50 \<le> length longText
   \<and> analyzeWritingStyle (replyWith jsonReply) (parseTo (analysisWith [scoreOf ''1'' 18]))
        longText DEFAULT_RUBRIC
      = ([StyleRequest DEFAULT_RUBRIC longText], Inr (analysisWith [scoreOf ''1'' 18]))
   \<and> map rs_criterionId (an_rubricScores (analysisWith [scoreOf ''1'' 18])) = [''1'']
   \<and> map rc_id DEFAULT_RUBRIC = [''1'', ''2'', ''3'', ''4'', ''5'']"
  by (simp add: analyzeWritingStyle_long longText_length replyWith_def jsonReply_def parseTo_def
      parseResponseText_def analysisWith_def scoreOf_def DEFAULT_RUBRIC_def)


section \<open>The submission\<close>

lemma submitApplication_style_failed:
  assumes "wp_fullName (formData (ui w)) \<noteq> []" "wp_email (formData (ui w)) \<noteq> []"
    "wp_track (formData (ui w)) \<noteq> None"
    and "analyzeWritingStyle (service env) (parseAnalysis env) (assessmentText (ui w))
           (getRubric (storage w)) = (calls, Inl err)"
  shows "submitApplication env w
           = finallySubmission (catchSubmission (logRequests calls w))"
  using assms by (auto simp: submitApplication_def submitApplication_try_def Let_def)

text \<open>
  Claim C3. When the style stage fails (the call throws, the response has no text or an empty
  text, or the text does not parse), the submission aborts: one alert is shown, the store
  is left as it was, so no assessment is persisted and the stored profile is unchanged, the
  form data and the step are unchanged, and no further request is sent.
\<close>

theorem style_failure_aborts_submission:
  fixes env :: Env and w :: World
  defines "txt \<equiv> assessmentText (ui w)"
  defines "req \<equiv> StyleRequest (getRubric (storage w)) (take 4000 (assessmentText (ui w)))"
  assumes guard: "wp_fullName (formData (ui w)) \<noteq> []" "wp_email (formData (ui w)) \<noteq> []"
      "wp_track (formData (ui w)) \<noteq> None"
    and long: "50 \<le> length txt"
    and fail: "service env req = Inl e
       \<or> (\<exists>response. service env req = Inr response
             \<and> (resp_text response = None \<or> resp_text response = Some []
                 \<or> (\<exists>t. resp_text response = Some t \<and> parseAnalysis env t = None)))"
  shows "(\<exists>err. snd (analyzeWritingStyle (service env) (parseAnalysis env) txt
                      (getRubric (storage w))) = Inl err)
    \<and> storage (submitApplication env w) = storage w
    \<and> alerts (submitApplication env w) = alerts w @ [submissionError]
    \<and> formData (ui (submitApplication env w)) = formData (ui w)
    \<and> step (ui (submitApplication env w)) = step (ui w)
    \<and> requests (submitApplication env w) = requests w @ [req]"
proof -
  from fail obtain err where
    "(case service env req of Inl e \<Rightarrow> Inl e
      | Inr response \<Rightarrow> parseResponseText (parseAnalysis env) response) = Inl err"
    using parseResponseText_fails [of _ "parseAnalysis env"] by fastforce
  with long have run: "analyzeWritingStyle (service env) (parseAnalysis env)
      (assessmentText (ui w)) (getRubric (storage w)) = ([req], Inl err)"
    by (simp add: analyzeWritingStyle_long txt_def req_def)
  from submitApplication_style_failed [OF guard run]
  have "submitApplication env w = finallySubmission (catchSubmission (logRequests [req] w))" .
  then show ?thesis
    using run
    by (simp add: finallySubmission_def catchSubmission_def logRequests_def txt_def)
qed
theorem style_failure_aborts_submission_witness:
  "wp_fullName (formData (ui (worldWith longText))) \<noteq> []
   \<and> wp_email (formData (ui (worldWith longText))) \<noteq> []
   \<and> wp_track (formData (ui (worldWith longText))) \<noteq> None
   \<and> 50 \<le> length (assessmentText (ui (worldWith longText)))
   \<and> service (envWith (failWith (ServiceError ''503'')) parseFails)
         (StyleRequest (getRubric (storage (worldWith longText)))
            (take 4000 (assessmentText (ui (worldWith longText)))))
       = Inl (ServiceError ''503'')
   \<and> storage (submitApplication (envWith (failWith (ServiceError ''503'')) parseFails)
         (worldWith longText)) = storage (worldWith longText)
   \<and> alerts (submitApplication (envWith (failWith (ServiceError ''503'')) parseFails)
         (worldWith longText)) = [submissionError]"
proof -
  have g: "wp_fullName (formData (ui (worldWith longText))) \<noteq> []"
    "wp_email (formData (ui (worldWith longText))) \<noteq> []"
    "wp_track (formData (ui (worldWith longText))) \<noteq> None"
    by (simp_all add: worldWith_def profileWithId_def)
  have l: "50 \<le> length (assessmentText (ui (worldWith longText)))"
    by (simp add: worldWith_def longText_length)
  have f: "service (envWith (failWith (ServiceError ''503'')) parseFails)
         (StyleRequest (getRubric (storage (worldWith longText)))
            (take 4000 (assessmentText (ui (worldWith longText)))))
       = Inl (ServiceError ''503'')"
    by (simp add: envWith_def failWith_def)
  have a: "alerts (worldWith longText) = []"
    by (simp add: worldWith_def)
  from style_failure_aborts_submission [OF g l disjI1, OF f] g l f a
  show ?thesis
    by simp
qed




text \<open>
  A total that overflows is an infinity: finite points earned then give the score 0, and
  points earned that overflow as well give NaN.
\<close>

lemma normalizedScore_overflow_example:
  "totalPoints [criterion ''1'' (2 ^ 1023), criterion ''2'' (2 ^ 1023)] = PosInfinity
   \<and> normalizedScore (Finite 1) PosInfinity = Finite 0
   \<and> normalizedScore PosInfinity PosInfinity = NaN"
proof -
  define h :: rat where "h = 2 ^ 1023"
  have h: "2 powi 1023 \<le> h" "2 powi 1024 \<le> h + h" "0 < h"
    by (simp_all add: h_def)
  have "js_add (binary64 h) (Finite h) = PosInfinity"
  proof (cases "binary64 h")
    case (Finite r)
    then have "r = roundToSignificand h"
      using h(3) by (auto simp: binary64_def Let_def split: if_splits)
    moreover have "2 powi exponent h \<le> roundToSignificand h"
      using exponent_ge [OF h(1)] by (intro roundToSignificand_lower [OF h(3)]) simp
    moreover have "(2::rat) powi 1023 \<le> 2 powi exponent h"
      using exponent_ge [OF h(1)] by (intro power_int_increasing) auto
    ultimately have "2 powi 1024 \<le> r + h"
      using h(1,2) by (simp add: h_def)
    then show ?thesis
      using Finite by (simp add: binary64_overflow)
  next
    case PosInfinity
    then show ?thesis by simp
  next
    case NegInfinity
    then show ?thesis
      using h(3) by (auto simp: binary64_def Let_def split: if_splits)
  next
    case NaN
    then show ?thesis
      by (auto simp: binary64_def Let_def split: if_splits)
  qed
  then have "totalPoints [criterion ''1'' h, criterion ''2'' h] = PosInfinity"
    by (simp add: totalPoints_def criterion_def)
  moreover have "normalizedScore (Finite 1) PosInfinity = Finite 0"
    "normalizedScore PosInfinity PosInfinity = NaN"
    by (simp_all add: normalizedScore_def binary64_def)
  ultimately show ?thesis
    by (simp add: h_def)
qed

end
